theory Spec2Isabelle
  imports Complex_Main "HOL-Library.Word" "HOL-Library.Sublist"
begin

text \<open>
  The errand planner is one React component that exists twice: \<^verbatim>\<open>ErrandOS\<close> in index.tsx
  and \<^verbatim>\<open>ErrandOptimizer\<close> in the second source file. Each keeps its state in
  \<^verbatim>\<open>useState\<close> cells, asks a generative service for a plan, parses the JSON in the answer
  and stores the plan, its citations and the request history. The two differ in the parser,
  in the citation filter, in the error messages and in the location fallback; where they
  differ both are modelled, under the component's name. A handler is a function from the
  state before to the state after; a block that can throw returns a sum, \<open>Inl\<close> the thrown
  value.
\<close>

section \<open>JavaScript strings\<close>

text \<open>
  A JavaScript string is a sequence of UTF-16 code units. String literals of the source are
  written \<open>js ''...''\<close>.
\<close>

type_synonym code_unit = "16 word"
type_synonym jsstring = "code_unit list"

definition unit_of :: "char \<Rightarrow> code_unit" where
  "unit_of c = of_nat (of_char c)"

definition js :: "string \<Rightarrow> jsstring" where
  "js s = map unit_of s"

definition open_brace :: code_unit where
  "open_brace = 0x7B"

definition close_brace :: code_unit where
  "close_brace = 0x7D"

text \<open>
  \<^verbatim>\<open>s.replace(/p/g, '')\<close> for a pattern \<open>p\<close> that is a literal string: every match,
  found from left to right and not overlapping the one before, is deleted.
\<close>

fun replace_all :: "'a list \<Rightarrow> 'a list \<Rightarrow> 'a list" where
  "replace_all p [] = []"
| "replace_all p (c # cs) =
     (if p \<noteq> [] \<and> prefix p (c # cs) then replace_all p (drop (length p) (c # cs))
      else c # replace_all p cs)"

text \<open>
  \<^verbatim>\<open>s.trim()\<close> removes the WhiteSpace and LineTerminator code points of ECMAScript from
  both ends.
\<close>

definition is_white_space :: "code_unit \<Rightarrow> bool" where
  "is_white_space c =
     (c \<in> set [0x0009, 0x000A, 0x000B, 0x000C, 0x000D, 0x0020, 0x00A0, 0x1680,
               0x2028, 0x2029, 0x202F, 0x205F, 0x3000, 0xFEFF]
      \<or> (0x2000 \<le> c \<and> c \<le> 0x200A))"

definition trim :: "jsstring \<Rightarrow> jsstring" where
  "trim s = rev (dropWhile is_white_space (rev (dropWhile is_white_space s)))"

text \<open>
  \<^verbatim>\<open>s.indexOf(c)\<close> and \<^verbatim>\<open>s.lastIndexOf(c)\<close> for a one-unit search string: the position
  of the first (last) occurrence, \<open>-1\<close> when there is none.
\<close>

fun indexOf :: "'a list \<Rightarrow> 'a \<Rightarrow> int" where
  "indexOf [] c = -1"
| "indexOf (x # xs) c =
     (if x = c then 0 else (let i = indexOf xs c in if i = -1 then -1 else i + 1))"

fun lastIndexOf :: "'a list \<Rightarrow> 'a \<Rightarrow> int" where
  "lastIndexOf [] c = -1"
| "lastIndexOf (x # xs) c =
     (let i = lastIndexOf xs c in if i \<noteq> -1 then i + 1 else if x = c then 0 else -1)"

text \<open>
  \<^verbatim>\<open>s.substring(start, end)\<close>: both arguments are clamped to \<open>0 .. length s\<close>, and
  they are swapped when the first is the larger.
\<close>

definition substring :: "'a list \<Rightarrow> int \<Rightarrow> int \<Rightarrow> 'a list" where
  "substring s start end =
     (let n = int (length s);
          a = max 0 (min start n);
          b = max 0 (min end n);
          lo = min a b;
          hi = max a b
      in take (nat (hi - lo)) (drop (nat lo) s))"

text \<open>\<^verbatim>\<open>xs.join(sep)\<close> on an array of strings.\<close>

fun join :: "'a list \<Rightarrow> 'a list list \<Rightarrow> 'a list" where
  "join sep [] = []"
| "join sep [x] = x"
| "join sep (x # y # ys) = x @ sep @ join sep (y # ys)"

section \<open>JavaScript values, exceptions and the platform\<close>

text \<open>
  A thrown value is an Error object (of any subclass) with its \<^verbatim>\<open>message\<close>. A block that
  may throw has a result of type \<open>thrown + 'a\<close>.
\<close>

datatype thrown = Error (message: jsstring)

definition try_catch :: "thrown + 'a \<Rightarrow> (thrown \<Rightarrow> thrown + 'a) \<Rightarrow> thrown + 'a" where
  "try_catch body handler = (case body of Inl e \<Rightarrow> handler e | Inr v \<Rightarrow> Inr v)"

text \<open>
  What \<^verbatim>\<open>JSON.parse\<close> returns, and what the grounding metadata of a response holds: the
  source gives both the type \<^verbatim>\<open>any\<close> and checks no field after decoding. A number stands
  for its mathematical value. A value of type \<open>json option\<close> is a JavaScript value that
  may be \<^verbatim>\<open>undefined\<close> (\<open>None\<close>); \<^verbatim>\<open>null\<close> is \<open>JNull\<close>.
\<close>

datatype json =
    JNull
  | JBool bool
  | JNum rat
  | JStr jsstring
  | JArr "json list"
  | JObj "(jsstring \<times> json) list"

text \<open>The test \<^verbatim>\<open>if (v)\<close>, and so \<^verbatim>\<open>!v\<close> and \<^verbatim>\<open>v || d\<close>.\<close>

fun truthy :: "json option \<Rightarrow> bool" where
  "truthy None = False"
| "truthy (Some JNull) = False"
| "truthy (Some (JBool b)) = b"
| "truthy (Some (JNum n)) = (n \<noteq> 0)"
| "truthy (Some (JStr s)) = (s \<noteq> [])"
| "truthy (Some (JArr xs)) = True"
| "truthy (Some (JObj kvs)) = True"

text \<open>
  Reading a property named \<open>k\<close> of a value that is neither \<^verbatim>\<open>null\<close> nor
  \<^verbatim>\<open>undefined\<close>. The source reads the names \<^verbatim>\<open>stops\<close>, \<^verbatim>\<open>address\<close>, \<^verbatim>\<open>maps\<close>,
  \<^verbatim>\<open>uri\<close> and \<^verbatim>\<open>title\<close> only, none of which a string, a number, a boolean or an array
  has.
\<close>

fun own_property :: "json \<Rightarrow> jsstring \<Rightarrow> json option" where
  "own_property (JObj kvs) k = map_of kvs k"
| "own_property v k = None"

text \<open>\<^verbatim>\<open>v.k\<close> throws a TypeError on \<^verbatim>\<open>null\<close> and \<^verbatim>\<open>undefined\<close>; \<^verbatim>\<open>v?.k\<close> is \<^verbatim>\<open>undefined\<close> there.\<close>

definition type_error :: thrown where
  "type_error = Error (js ''Cannot read properties of null or undefined'')"

fun member :: "json option \<Rightarrow> jsstring \<Rightarrow> thrown + json option" where
  "member None k = Inl type_error"
| "member (Some JNull) k = Inl type_error"
| "member (Some v) k = Inr (own_property v k)"

fun optional_member :: "json option \<Rightarrow> jsstring \<Rightarrow> json option" where
  "optional_member None k = None"
| "optional_member (Some JNull) k = None"
| "optional_member (Some v) k = own_property v k"

text \<open>
  The results of a list of computations, or the first throw among them.
\<close>

fun all_or_throw :: "(thrown + 'a) list \<Rightarrow> thrown + 'a list" where
  "all_or_throw [] = Inr []"
| "all_or_throw (Inl e # rs) = Inl e"
| "all_or_throw (Inr v # rs) =
     (case all_or_throw rs of Inl e \<Rightarrow> Inl e | Inr vs \<Rightarrow> Inr (v # vs))"

text \<open>
  \<^verbatim>\<open>String(v)\<close>. The rendering of a number is the platform's (\<open>num\<close>). An object
  decoded from JSON has no callable property of its own, so one with a key
  \<^verbatim>\<open>toString\<close> hides \<^verbatim>\<open>Object.prototype.toString\<close> and the conversion throws a
  TypeError; any other object renders as \<^verbatim>\<open>[object Object]\<close>. An array is the join of
  its elements by a comma, from left to right, a \<^verbatim>\<open>null\<close> element giving the empty
  string.
\<close>

definition cannot_convert :: thrown where
  "cannot_convert = Error (js ''Cannot convert object to primitive value'')"

fun String_json :: "(rat \<Rightarrow> jsstring) \<Rightarrow> json \<Rightarrow> thrown + jsstring" where
  "String_json num JNull = Inr (js ''null'')"
| "String_json num (JBool b) = Inr (if b then js ''true'' else js ''false'')"
| "String_json num (JNum n) = Inr (num n)"
| "String_json num (JStr s) = Inr s"
| "String_json num (JArr xs) =
     (case all_or_throw (map (\<lambda>x. if x = JNull then Inr [] else String_json num x) xs) of
        Inl e \<Rightarrow> Inl e
      | Inr parts \<Rightarrow> Inr (join (js '','') parts))"
| "String_json num (JObj kvs) =
     (if map_of kvs (js ''toString'') \<noteq> None then Inl cannot_convert
      else Inr (js ''[object Object]''))"

definition String :: "(rat \<Rightarrow> jsstring) \<Rightarrow> json option \<Rightarrow> thrown + jsstring" where
  "String num v = (case v of None \<Rightarrow> Inr (js ''undefined'') | Some x \<Rightarrow> String_json num x)"

text \<open>
  The built-in functions of the platform that the source calls and this repository does
  not define. \<^verbatim>\<open>JSON.parse\<close> throws a SyntaxError on a malformed text;
  \<^verbatim>\<open>encodeURIComponent\<close> throws a URIError on a lone surrogate.
\<close>

record platform =
  JSON_parse :: "jsstring \<Rightarrow> thrown + json"
  encodeURIComponent :: "jsstring \<Rightarrow> thrown + jsstring"
  Number_toString :: "rat \<Rightarrow> jsstring"
  Number_toFixed :: "rat \<Rightarrow> nat \<Rightarrow> jsstring"

text \<open>
  \<^verbatim>\<open>xs.forEach(f)\<close> where \<open>f\<close> updates a local accumulator and may throw: the first throw
  ends the loop.
\<close>

fun forEach :: "('a \<Rightarrow> 's \<Rightarrow> thrown + 's) \<Rightarrow> 'a list \<Rightarrow> 's \<Rightarrow> thrown + 's" where
  "forEach f [] acc = Inr acc"
| "forEach f (x # xs) acc = (case f x acc of Inl e \<Rightarrow> Inl e | Inr acc' \<Rightarrow> forEach f xs acc')"


section \<open>The state of the page\<close>

text \<open>
  Both components, \<^verbatim>\<open>ErrandOS\<close> (index.tsx) and \<^verbatim>\<open>ErrandOptimizer\<close> (the second
  source file), hold the same nine \<^verbatim>\<open>useState\<close> cells. \<open>plan\<close> is \<^verbatim>\<open>null\<close> or
  whatever \<^verbatim>\<open>JSON.parse\<close> returned.
\<close>

record grounding_link =
  title :: jsstring
  uri :: jsstring

record app_state =
  input :: jsstring
  isListening :: bool
  isLoading :: bool
  plan :: json
  groundingLinks :: "grounding_link list"
  location :: "(rat \<times> rat) option"
  locationName :: jsstring
  error :: "jsstring option"
  history :: "jsstring list"

definition ErrandOS_initial :: app_state where
  "ErrandOS_initial =
     \<lparr>input = [], isListening = False, isLoading = False, plan = JNull, groundingLinks = [],
      location = None, locationName = js ''Locating...'', error = None, history = []\<rparr>"

definition ErrandOptimizer_initial :: app_state where
  "ErrandOptimizer_initial =
     \<lparr>input = [], isListening = False, isLoading = False, plan = JNull, groundingLinks = [],
      location = None, locationName = js ''Detecting location...'', error = None,
      history = []\<rparr>"

text \<open>
  What the service call gave back: the text of the response (\<^verbatim>\<open>response.text\<close>, which
  may be \<^verbatim>\<open>undefined\<close>) and the value of
  \<^verbatim>\<open>response.candidates?.[0]?.groundingMetadata?.groundingChunks\<close>.
\<close>

record response =
  response_text :: "jsstring option"
  groundingChunks :: "json option"

section \<open>The response parser\<close>

text \<open>
  \<^verbatim>\<open>extractJSON\<close> of index.tsx. \<open>extractJSON_try\<close> is the body of its \<^verbatim>\<open>try\<close> block;
  calling \<^verbatim>\<open>replace\<close> on \<^verbatim>\<open>undefined\<close> throws. The handler logs and returns \<^verbatim>\<open>null\<close>.
\<close>

definition extractJSON_try :: "platform \<Rightarrow> jsstring option \<Rightarrow> thrown + json" where
  "extractJSON_try P text =
     (case text of
        None \<Rightarrow> Inl type_error
      | Some t \<Rightarrow>
          (let cleanText = trim (replace_all (js ''```'') (replace_all (js ''```json'') t));
               jsonStart = indexOf cleanText open_brace;
               jsonEnd = lastIndexOf cleanText close_brace + 1
           in if jsonStart = -1 \<or> jsonEnd = 0 then Inr JNull
              else JSON_parse P (substring cleanText jsonStart jsonEnd)))"

definition extractJSON :: "platform \<Rightarrow> jsstring option \<Rightarrow> thrown + json" where
  "extractJSON P text = try_catch (extractJSON_try P text) (\<lambda>e. Inr JNull)"

text \<open>
  The parser of \<^verbatim>\<open>ErrandOptimizer\<close>, inlined in its \<^verbatim>\<open>generatePlan\<close>: no fence is
  stripped, nothing is trimmed, and an empty \<^verbatim>\<open>jsonString\<close> is the only "no data" case.
\<close>

definition ErrandOptimizer_parse :: "platform \<Rightarrow> jsstring option \<Rightarrow> thrown + json" where
  "ErrandOptimizer_parse P rtext =
     (let text = (case rtext of None \<Rightarrow> [] | Some t \<Rightarrow> t);
          jsonStart = indexOf text open_brace;
          jsonEnd = lastIndexOf text close_brace + 1;
          jsonString = substring text jsonStart jsonEnd
      in if jsonString = []
         then Inl (Error (js ''Critical: AI response contained no valid plan data.''))
         else JSON_parse P jsonString)"

section \<open>Citation extraction\<close>

text \<open>The callback of \<^verbatim>\<open>chunks.forEach\<close> in \<^verbatim>\<open>ErrandOS\<close>.\<close>

definition ErrandOS_push_source ::
  "platform \<Rightarrow> json \<Rightarrow> grounding_link list \<Rightarrow> thrown + grounding_link list" where
  "ErrandOS_push_source P chunk sources =
     (if truthy (optional_member (optional_member (Some chunk) (js ''maps'')) (js ''uri''))
      then
        (case member (Some chunk) (js ''maps'') of
           Inl e \<Rightarrow> Inl e
         | Inr maps \<Rightarrow>
             (case member maps (js ''title'') of
                Inl e \<Rightarrow> Inl e
              | Inr t \<Rightarrow>
                  (case String (Number_toString P)
                          (if truthy t then t else Some (JStr (js ''Map Location''))) of
                     Inl e \<Rightarrow> Inl e
                   | Inr title_text \<Rightarrow>
                       (case member maps (js ''uri'') of
                          Inl e \<Rightarrow> Inl e
                        | Inr u \<Rightarrow>
                            (case String (Number_toString P) u of
                               Inl e \<Rightarrow> Inl e
                             | Inr uri_text \<Rightarrow>
                                 Inr (sources @ [\<lparr>title = title_text, uri = uri_text\<rparr>]))))))
      else Inr sources)"

definition ErrandOS_sources :: "platform \<Rightarrow> json option \<Rightarrow> thrown + grounding_link list" where
  "ErrandOS_sources P chunks =
     (case chunks of
        Some (JArr cs) \<Rightarrow> forEach (ErrandOS_push_source P) cs []
      | _ \<Rightarrow> Inr [])"

text \<open>The callback of \<^verbatim>\<open>chunks.forEach\<close> in \<^verbatim>\<open>ErrandOptimizer\<close>.\<close>

definition ErrandOptimizer_push_source ::
  "platform \<Rightarrow> json \<Rightarrow> grounding_link list \<Rightarrow> thrown + grounding_link list" where
  "ErrandOptimizer_push_source P chunk sources =
     (if truthy (optional_member (optional_member (Some chunk) (js ''maps'')) (js ''title''))
         \<and> truthy (optional_member (optional_member (Some chunk) (js ''maps'')) (js ''uri''))
      then
        (case member (Some chunk) (js ''maps'') of
           Inl e \<Rightarrow> Inl e
         | Inr maps \<Rightarrow>
             (case member maps (js ''title'') of
                Inl e \<Rightarrow> Inl e
              | Inr t \<Rightarrow>
                  (case String (Number_toString P) t of
                     Inl e \<Rightarrow> Inl e
                   | Inr title_text \<Rightarrow>
                       (case member maps (js ''uri'') of
                          Inl e \<Rightarrow> Inl e
                        | Inr u \<Rightarrow>
                            (case String (Number_toString P) u of
                               Inl e \<Rightarrow> Inl e
                             | Inr uri_text \<Rightarrow>
                                 Inr (sources @ [\<lparr>title = title_text, uri = uri_text\<rparr>]))))))
      else Inr sources)"

definition ErrandOptimizer_sources ::
  "platform \<Rightarrow> json option \<Rightarrow> thrown + grounding_link list" where
  "ErrandOptimizer_sources P chunks =
     (case chunks of
        Some (JArr cs) \<Rightarrow> forEach (ErrandOptimizer_push_source P) cs []
      | _ \<Rightarrow> Inr [])"

section \<open>The request cycle\<close>

text \<open>
  \<^verbatim>\<open>generatePlan\<close> of \<^verbatim>\<open>ErrandOS\<close>. The argument \<open>served\<close> is what constructing the
  client and awaiting \<^verbatim>\<open>generateContent\<close> gave: a thrown error or a response. The prompt
  reaches the service only, so it is not modelled; the properties below hold for every
  \<open>served\<close>. \<open>ErrandOS_generatePlan_try\<close> is the \<^verbatim>\<open>try\<close> block up to its three state
  writes: it either throws or reaches them with \<open>parsedPlan\<close> and \<open>sources\<close>. One call
  runs from the click to the \<^verbatim>\<open>finally\<close> block with no other handler in between.
\<close>

definition ErrandOS_generatePlan_try ::
  "platform \<Rightarrow> thrown + response \<Rightarrow> thrown + json \<times> grounding_link list" where
  "ErrandOS_generatePlan_try P served =
     (case served of
        Inl e \<Rightarrow> Inl e
      | Inr response \<Rightarrow>
          (case extractJSON P (response_text response) of
             Inl e \<Rightarrow> Inl e
           | Inr parsedPlan \<Rightarrow>
               if \<not> truthy (Some parsedPlan)
               then Inl (Error (js (''Critical: AI response contained no valid plan data. ''
                                     @ ''Please try again with more specific details.'')))
               else
                 (case ErrandOS_sources P (groundingChunks response) of
                    Inl e \<Rightarrow> Inl e
                  | Inr sources \<Rightarrow> Inr (parsedPlan, sources))))"

definition ErrandOS_generatePlan ::
  "platform \<Rightarrow> thrown + response \<Rightarrow> bool \<Rightarrow> app_state \<Rightarrow> app_state" where
  "ErrandOS_generatePlan P served isReroute s =
     (if trim (input s) = [] \<and> \<not> isReroute then s
      else
        let s1 = s\<lparr>isLoading := True\<rparr>;
            s2 = s1\<lparr>error := None\<rparr>;
            s3 = (case ErrandOS_generatePlan_try P served of
                    Inr (parsedPlan, sources) \<Rightarrow>
                      let a = s2\<lparr>plan := parsedPlan\<rparr>;
                          b = a\<lparr>groundingLinks := sources\<rparr>
                      in if \<not> isReroute
                         then b\<lparr>history := take 5 (input s # history b)\<rparr>
                         else b
                  | Inl err \<Rightarrow>
                      s2\<lparr>error := Some (if message err \<noteq> [] then message err
                                         else js ''Spatial processing interrupted.'')\<rparr>)
        in s3\<lparr>isLoading := False\<rparr>)"

text \<open>\<^verbatim>\<open>generatePlan\<close> of \<^verbatim>\<open>ErrandOptimizer\<close>.\<close>

definition ErrandOptimizer_generatePlan_try ::
  "platform \<Rightarrow> thrown + response \<Rightarrow> thrown + json \<times> grounding_link list" where
  "ErrandOptimizer_generatePlan_try P served =
     (case served of
        Inl e \<Rightarrow> Inl e
      | Inr response \<Rightarrow>
          (case ErrandOptimizer_parse P (response_text response) of
             Inl e \<Rightarrow> Inl e
           | Inr parsedPlan \<Rightarrow>
               (case ErrandOptimizer_sources P (groundingChunks response) of
                  Inl e \<Rightarrow> Inl e
                | Inr sources \<Rightarrow> Inr (parsedPlan, sources))))"

definition ErrandOptimizer_generatePlan ::
  "platform \<Rightarrow> thrown + response \<Rightarrow> bool \<Rightarrow> app_state \<Rightarrow> app_state" where
  "ErrandOptimizer_generatePlan P served isReroute s =
     (if trim (input s) = [] \<and> \<not> isReroute then s
      else
        let s1 = s\<lparr>isLoading := True\<rparr>;
            s2 = s1\<lparr>error := None\<rparr>;
            s3 = (case ErrandOptimizer_generatePlan_try P served of
                    Inr (parsedPlan, sources) \<Rightarrow>
                      let a = s2\<lparr>plan := parsedPlan\<rparr>;
                          b = a\<lparr>groundingLinks := sources\<rparr>
                      in if \<not> isReroute
                         then b\<lparr>history := take 5 (input s # history b)\<rparr>
                         else b
                  | Inl err \<Rightarrow>
                      s2\<lparr>error := Some (js (''Spatial processing interrupted. ''
                                              @ ''Verify errand descriptions and try again.''))\<rparr>)
        in s3\<lparr>isLoading := False\<rparr>)"

text \<open>
  What the user does to a page, one handler at a time: typing sets \<open>input\<close>
  (\<^verbatim>\<open>onChange\<close>), the plan button calls \<^verbatim>\<open>generatePlan()\<close>, the reroute button calls
  \<^verbatim>\<open>generatePlan(true)\<close>.
\<close>

datatype event =
    Type jsstring
  | Generate "thrown + response"
  | Reroute "thrown + response"

fun ErrandOS_handle :: "platform \<Rightarrow> app_state \<Rightarrow> event \<Rightarrow> app_state" where
  "ErrandOS_handle P s (Type t) = s\<lparr>input := t\<rparr>"
| "ErrandOS_handle P s (Generate served) = ErrandOS_generatePlan P served False s"
| "ErrandOS_handle P s (Reroute served) = ErrandOS_generatePlan P served True s"

fun ErrandOptimizer_handle :: "platform \<Rightarrow> app_state \<Rightarrow> event \<Rightarrow> app_state" where
  "ErrandOptimizer_handle P s (Type t) = s\<lparr>input := t\<rparr>"
| "ErrandOptimizer_handle P s (Generate served) = ErrandOptimizer_generatePlan P served False s"
| "ErrandOptimizer_handle P s (Reroute served) = ErrandOptimizer_generatePlan P served True s"

text \<open>Typing each request text and pressing the plan button, one request after the other.\<close>

definition submissions :: "(jsstring \<times> (thrown + response)) list \<Rightarrow> event list" where
  "submissions reqs = concat (map (\<lambda>(t, served). [Type t, Generate served]) reqs)"

section \<open>Voice and location capture\<close>

text \<open>
  \<^verbatim>\<open>toggleListening\<close>, the same in both components. \<open>recognitionRef\<close> is
  \<^verbatim>\<open>recognitionRef.current\<close>: \<open>None\<close> on a platform with no speech recognition, else the
  recognizer, of which the model keeps whether \<^verbatim>\<open>start()\<close> and \<^verbatim>\<open>stop()\<close> throw. The
  result pairs what the handler throws, if anything, with the state it leaves.
\<close>

record recognition =
  start_throws :: "thrown option"
  stop_throws :: "thrown option"

definition toggleListening :: "recognition option \<Rightarrow> app_state \<Rightarrow> thrown option \<times> app_state" where
  "toggleListening recognitionRef s =
     (if isListening s then
        (case (case recognitionRef of None \<Rightarrow> None | Some r \<Rightarrow> stop_throws r) of
           Some e \<Rightarrow> (Some e, s)
         | None \<Rightarrow> (None, s\<lparr>isListening := False\<rparr>))
      else
        let s1 = s\<lparr>error := None\<rparr>
        in (case (case recognitionRef of None \<Rightarrow> None | Some r \<Rightarrow> start_throws r) of
              Some e \<Rightarrow> (None, s1\<lparr>error := Some (js ''Microphone access is unavailable.'')\<rparr>)
            | None \<Rightarrow> (None, s1\<lparr>isListening := True\<rparr>)))"

text \<open>
  The location request of the mount effect: nothing happens without
  \<^verbatim>\<open>navigator.geolocation\<close>; otherwise the platform calls the first callback with a
  position or the second one on denial or failure.
\<close>

datatype geolocation = NoGeolocation | Position rat rat | PositionError

fun ErrandOS_getCurrentPosition :: "platform \<Rightarrow> geolocation \<Rightarrow> app_state \<Rightarrow> app_state" where
  "ErrandOS_getCurrentPosition P NoGeolocation s = s"
| "ErrandOS_getCurrentPosition P (Position lat lng) s =
     (let s1 = s\<lparr>location := Some (lat, lng)\<rparr>
      in s1\<lparr>locationName := Number_toFixed P lat 3 @ js '', '' @ Number_toFixed P lng 3\<rparr>)"
| "ErrandOS_getCurrentPosition P PositionError s =
     (let s1 = s\<lparr>location := Some (37.7749, -122.4194)\<rparr>
      in s1\<lparr>locationName := js ''San Francisco, CA''\<rparr>)"

fun ErrandOptimizer_getCurrentPosition ::
  "platform \<Rightarrow> geolocation \<Rightarrow> app_state \<Rightarrow> app_state" where
  "ErrandOptimizer_getCurrentPosition P NoGeolocation s = s"
| "ErrandOptimizer_getCurrentPosition P (Position lat lng) s =
     (let s1 = s\<lparr>location := Some (lat, lng)\<rparr>
      in s1\<lparr>locationName := Number_toFixed P lat 3 @ js '', '' @ Number_toFixed P lng 3\<rparr>)"
| "ErrandOptimizer_getCurrentPosition P PositionError s =
     (let s1 = s\<lparr>error := Some (js (''Location access denied. ''
                                      @ ''Routing from default hub (San Francisco).''))\<rparr>;
          s2 = s1\<lparr>location := Some (37.7749, -122.4194)\<rparr>
      in s2\<lparr>locationName := js ''San Francisco, CA''\<rparr>)"

section \<open>The outbound directions link\<close>



section \<open>A platform for concrete evaluation\<close>

text \<open>
  The theorems below hold for every platform. Where one of them is evaluated at a concrete
  input, the built-ins are these tables. They agree with \<^verbatim>\<open>JSON.parse\<close>,
  \<^verbatim>\<open>encodeURIComponent\<close>, \<^verbatim>\<open>String\<close> of a number and \<^verbatim>\<open>toFixed\<close> on the arguments
  they list. The evaluations below reach the last branch of \<open>sample_JSON_parse\<close> with
  malformed JSON only, and never reach the last branch of the other three.
\<close>

definition sample_JSON_parse :: "jsstring \<Rightarrow> thrown + json" where
  \<open>sample_JSON_parse t =
     (if t = js ''{}'' then Inr (JObj [])
      else if t = js ''{"summary":"ok"}'' then Inr (JObj [(js ''summary'', JStr (js ''ok''))])
      else if t = js ''{"a":"```"}'' then Inr (JObj [(js ''a'', JStr (js ''```''))])
      else if t = js ''{"a":""}'' then Inr (JObj [(js ''a'', JStr [])])
      else Inl (Error (js ''Unexpected token in JSON'')))\<close>

definition sample_encodeURIComponent :: "jsstring \<Rightarrow> thrown + jsstring" where
  "sample_encodeURIComponent t =
     (if t = js ''1 Main St'' then Inr (js ''1%20Main%20St'')
      else if t = js ''Pier 39'' then Inr (js ''Pier%2039'')
      else Inl (Error (js ''URI malformed'')))"

definition sample_Number_toString :: "rat \<Rightarrow> jsstring" where
  "sample_Number_toString n =
     (if n = 37.7749 then js ''37.7749''
      else if n = -122.4194 then js ''-122.4194''
      else js ''0'')"

definition sample_Number_toFixed :: "rat \<Rightarrow> nat \<Rightarrow> jsstring" where
  "sample_Number_toFixed n digits =
     (if n = 37.7749 \<and> digits = 3 then js ''37.775''
      else if n = -122.4194 \<and> digits = 3 then js ''-122.419''
      else js ''0'')"

definition sample_platform :: platform where
  "sample_platform =
     \<lparr>JSON_parse = sample_JSON_parse,
      encodeURIComponent = sample_encodeURIComponent,
      Number_toString = sample_Number_toString,
      Number_toFixed = sample_Number_toFixed\<rparr>"

section \<open>Facts about the string built-ins\<close>

text \<open>
  The unfolding equation of \<open>replace_all\<close> is split in two, one for a match at the head and
  one for none, and kept out of the simplifier.
\<close>

lemma replace_all_match:
  "p \<noteq> [] \<Longrightarrow> prefix p (c # cs) \<Longrightarrow>
     replace_all p (c # cs) = replace_all p (drop (length p) (c # cs))"
  by simp

lemma replace_all_skip:
  "\<not> (p \<noteq> [] \<and> prefix p (c # cs)) \<Longrightarrow> replace_all p (c # cs) = c # replace_all p cs"
  by auto

declare replace_all.simps(2) [simp del]

lemma set_replace_all: "set (replace_all p s) \<subseteq> set s"
proof (induction p s rule: replace_all.induct)
  case (1 p)
  then show ?case by simp
next
  case (2 p c cs)
  show ?case
  proof (cases "p \<noteq> [] \<and> prefix p (c # cs)")
    case True
    with 2 have "set (replace_all p (drop (length p) (c # cs))) \<subseteq> set (drop (length p) (c # cs))"
      by simp
    also have "\<dots> \<subseteq> set (c # cs)" by (rule set_drop_subset)
    finally show ?thesis using True by (simp add: replace_all_match)
  next
    case False
    with 2 show ?thesis by (auto simp: replace_all_skip)
  qed
qed

lemma prefix_before_foreign:
  assumes "prefix p (a @ c # r)" and "c \<notin> set p"
  shows "prefix p a"
proof -
  from assms(1) consider "prefix p a" | us where "p = a @ us" "prefix us (c # r)"
    by (auto simp: prefix_append)
  then show ?thesis
  proof cases
    case 1
    then show ?thesis .
  next
    case 2
    then show ?thesis using assms(2) by (cases us) auto
  qed
qed

lemma replace_all_before_foreign:
  "c \<notin> set p \<Longrightarrow> replace_all p (pre @ c # rest) = replace_all p pre @ replace_all p (c # rest)"
proof (induction p pre rule: replace_all.induct)
  case (1 p)
  then show ?case by simp
next
  case (2 p x xs)
  show ?case
  proof (cases "p \<noteq> [] \<and> prefix p (x # xs)")
    case True
    then have len: "length p \<le> length (x # xs)" by (auto dest: prefix_length_le)
    from True have pre': "prefix p ((x # xs) @ c # rest)" by (metis prefix_prefix)
    have "replace_all p ((x # xs) @ c # rest)
            = replace_all p (drop (length p) ((x # xs) @ c # rest))"
      using True pre' by (simp add: replace_all_match)
    also have "drop (length p) ((x # xs) @ c # rest) = drop (length p) (x # xs) @ c # rest"
      using len drop_append [of "length p" "x # xs" "c # rest"] by simp
    also have "replace_all p (drop (length p) (x # xs) @ c # rest)
                 = replace_all p (drop (length p) (x # xs)) @ replace_all p (c # rest)"
      using 2(1) True 2(3) by simp
    finally show ?thesis using True by (simp add: replace_all_match)
  next
    case False
    have "\<not> (p \<noteq> [] \<and> prefix p ((x # xs) @ c # rest))"
      using False prefix_before_foreign [OF _ 2(3)] by blast
    then have "replace_all p ((x # xs) @ c # rest) = x # replace_all p (xs @ c # rest)"
      by (simp add: replace_all_skip)
    also have "\<dots> = x # replace_all p xs @ replace_all p (c # rest)"
      using 2(2) False 2(3) by simp
    finally show ?thesis using False by (simp add: replace_all_skip)
  qed
qed

lemma replace_all_unmatched:
  "r \<noteq> [] \<Longrightarrow> last r \<notin> set p \<Longrightarrow> \<not> sublist p r \<Longrightarrow> replace_all p (r @ post) = r @ replace_all p post"
proof (induction r)
  case Nil
  then show ?case by simp
next
  case (Cons c r)
  have nomatch: "\<not> (p \<noteq> [] \<and> prefix p ((c # r) @ post))"
  proof
    assume a: "p \<noteq> [] \<and> prefix p ((c # r) @ post)"
    then have "prefix p (c # r) \<or> (\<exists>us. p = (c # r) @ us \<and> prefix us post)"
      using prefix_append [of p "c # r" post] by simp
    then consider "prefix p (c # r)" | us where "p = (c # r) @ us"
      by blast
    then show False
    proof cases
      case 1
      then show False using Cons.prems(3) by (simp add: prefix_imp_sublist)
    next
      case 2
      then have "last (c # r) \<in> set p" by (metis last_in_set list.discI set_append UnI1)
      then show False using Cons.prems(2) by simp
    qed
  qed
  then have step: "replace_all p ((c # r) @ post) = c # replace_all p (r @ post)"
    by (simp add: replace_all_skip)
  show ?case
  proof (cases "r = []")
    case True
    then show ?thesis using step by simp
  next
    case False
    have "\<not> sublist p r" using Cons.prems(3) by (auto simp: sublist_Cons_right)
    moreover have "last r \<notin> set p" using Cons.prems(2) False by simp
    ultimately show ?thesis using Cons.IH False step by simp
  qed
qed

lemma replace_all_around:
  assumes "obj \<noteq> []" "hd obj \<notin> set p" "last obj \<notin> set p" "\<not> sublist p obj"
  shows "replace_all p (pre @ obj @ post) = replace_all p pre @ obj @ replace_all p post"
proof -
  obtain c r where obj: "obj = c # r" using assms(1) by (cases obj) auto
  have "replace_all p (pre @ obj @ post) = replace_all p pre @ replace_all p (obj @ post)"
    using replace_all_before_foreign [of c p pre "r @ post"] assms(2) obj by simp
  then show ?thesis using replace_all_unmatched [OF assms(1,3,4)] by simp
qed

lemma dropWhile_before_kept:
  assumes "obj \<noteq> []" "\<not> Q (hd obj)"
  shows "dropWhile Q (a @ obj @ b) = dropWhile Q a @ obj @ b"
proof (cases "\<forall>x\<in>set a. Q x")
  case True
  then have "dropWhile Q (a @ obj @ b) = dropWhile Q (obj @ b)"
    by (simp add: dropWhile_append2)
  also have "\<dots> = obj @ b" using assms by (cases obj) auto
  finally show ?thesis using True by simp
next
  case False
  then show ?thesis by (auto simp: dropWhile_append1)
qed

lemma trim_around:
  assumes "obj \<noteq> []" "\<not> is_white_space (hd obj)" "\<not> is_white_space (last obj)"
  shows "trim (a @ obj @ b)
           = dropWhile is_white_space a @ obj @ rev (dropWhile is_white_space (rev b))"
proof -
  have "rev (dropWhile is_white_space a @ obj @ b)
          = rev b @ rev obj @ rev (dropWhile is_white_space a)"
    by simp
  moreover have "dropWhile is_white_space (rev b @ rev obj @ rev (dropWhile is_white_space a))
          = dropWhile is_white_space (rev b) @ rev obj @ rev (dropWhile is_white_space a)"
    using assms by (intro dropWhile_before_kept) (simp_all add: hd_rev)
  ultimately show ?thesis
    using dropWhile_before_kept [of obj is_white_space a b] assms(1,2) by (simp add: trim_def)
qed

lemma indexOf_absent: "c \<notin> set xs \<Longrightarrow> indexOf xs c = -1"
  by (induction xs) auto

lemma indexOf_first: "c \<notin> set a \<Longrightarrow> indexOf (a @ c # r) c = int (length a)"
  by (induction a) (auto simp: Let_def)

lemma lastIndexOf_absent: "c \<notin> set xs \<Longrightarrow> lastIndexOf xs c = -1"
  by (induction xs) (auto simp: Let_def)

lemma lastIndexOf_ge: "-1 \<le> lastIndexOf xs c"
  by (induction xs) (auto simp: Let_def)

lemma lastIndexOf_last: "c \<notin> set b \<Longrightarrow> lastIndexOf (x @ c # b) c = int (length x)"
proof (induction x)
  case Nil
  then show ?case by (simp add: lastIndexOf_absent)
next
  case (Cons y x)
  then show ?case using lastIndexOf_ge [of "x @ c # b" c] by (auto simp: Let_def)
qed

lemma substring_middle:
  "substring (a @ obj @ b) (int (length a)) (int (length a + length obj)) = obj"
  by (simp add: substring_def Let_def min_def max_def)

lemma span_of_delimited:
  assumes "obj \<noteq> []" "hd obj = open_brace" "last obj = close_brace"
    and "open_brace \<notin> set a" "close_brace \<notin> set b"
  shows "substring (a @ obj @ b) (indexOf (a @ obj @ b) open_brace)
           (lastIndexOf (a @ obj @ b) close_brace + 1) = obj"
    and "indexOf (a @ obj @ b) open_brace \<noteq> -1"
    and "lastIndexOf (a @ obj @ b) close_brace + 1 \<noteq> 0"
proof -
  obtain r where o1: "obj = open_brace # r" using assms(1,2) by (cases obj) auto
  obtain q where o2: "obj = q @ [close_brace]"
    using assms(1,3) by (metis append_butlast_last_id)
  have i: "indexOf (a @ obj @ b) open_brace = int (length a)"
    using indexOf_first [OF assms(4), of "r @ b"] o1 by simp
  have "lastIndexOf ((a @ q) @ close_brace # b) close_brace = int (length (a @ q))"
    using assms(5) by (rule lastIndexOf_last)
  then have l: "lastIndexOf (a @ obj @ b) close_brace + 1 = int (length a + length obj)"
    using o2 by simp
  show "substring (a @ obj @ b) (indexOf (a @ obj @ b) open_brace)
           (lastIndexOf (a @ obj @ b) close_brace + 1) = obj"
    unfolding i l by (rule substring_middle)
  show "indexOf (a @ obj @ b) open_brace \<noteq> -1" unfolding i by simp
  show "lastIndexOf (a @ obj @ b) close_brace + 1 \<noteq> 0"
    unfolding l using assms(1) by (cases obj) auto
qed

lemma fence_units:
  "open_brace \<notin> set (js ''```'')" "close_brace \<notin> set (js ''```'')"
  "open_brace \<notin> set (js ''```json'')" "close_brace \<notin> set (js ''```json'')"
  "\<not> is_white_space open_brace" "\<not> is_white_space close_brace"
  by (simp_all add: js_def unit_of_def open_brace_def close_brace_def is_white_space_def)

lemma no_json_fence: "\<not> sublist (js ''```'') obj \<Longrightarrow> \<not> sublist (js ''```json'') obj"
proof -
  have "sublist (js ''```'') (js ''```json'')"
    by (rule prefix_imp_sublist) (simp add: js_def)
  then show "\<not> sublist (js ''```'') obj \<Longrightarrow> \<not> sublist (js ''```json'') obj"
    by (meson sublist_order.order_trans)
qed

lemma cleaned_around:
  assumes "obj \<noteq> []" "hd obj = open_brace" "last obj = close_brace"
    and "open_brace \<notin> set pre" "close_brace \<notin> set post"
    and "\<not> sublist (js ''```'') obj"
  shows "\<exists>a b. trim (replace_all (js ''```'') (replace_all (js ''```json'') (pre @ obj @ post)))
                  = a @ obj @ b \<and> open_brace \<notin> set a \<and> close_brace \<notin> set b"
proof -
  let ?f1 = "replace_all (js ''```json'')" and ?f2 = "replace_all (js ''```'')"
  have 1: "?f1 (pre @ obj @ post) = ?f1 pre @ obj @ ?f1 post"
    using assms fence_units no_json_fence by (intro replace_all_around) simp_all
  have 2: "?f2 (?f1 pre @ obj @ ?f1 post) = ?f2 (?f1 pre) @ obj @ ?f2 (?f1 post)"
    using assms fence_units by (intro replace_all_around) simp_all
  have 3: "trim (?f2 (?f1 pre) @ obj @ ?f2 (?f1 post))
             = dropWhile is_white_space (?f2 (?f1 pre)) @ obj
               @ rev (dropWhile is_white_space (rev (?f2 (?f1 post))))"
    using assms fence_units by (intro trim_around) simp_all
  have sub: "set (?f2 (?f1 t)) \<subseteq> set t" for t
    using set_replace_all [of "js ''```''" "?f1 t"] set_replace_all [of "js ''```json''" t]
    by blast
  define a where "a = dropWhile is_white_space (?f2 (?f1 pre))"
  define b where "b = rev (dropWhile is_white_space (rev (?f2 (?f1 post))))"
  have "set a \<subseteq> set pre"
    unfolding a_def using sub [of pre] by (auto dest: set_dropWhileD)
  then have a: "open_brace \<notin> set a" using assms(4) by blast
  have "set b \<subseteq> set post"
    unfolding b_def using sub [of post] by (auto dest!: set_dropWhileD)
  then have b: "close_brace \<notin> set b" using assms(5) by blast
  have "trim (?f2 (?f1 (pre @ obj @ post))) = a @ obj @ b"
    unfolding a_def b_def 1 2 3 ..
  with a b show ?thesis by blast
qed

lemma extractJSON_try_around:
  assumes "obj \<noteq> []" "hd obj = open_brace" "last obj = close_brace"
    and "open_brace \<notin> set pre" "close_brace \<notin> set post"
    and "\<not> sublist (js ''```'') obj"
  shows "extractJSON_try P (Some (pre @ obj @ post)) = JSON_parse P obj"
proof -
  obtain a b where c: "trim (replace_all (js ''```'') (replace_all (js ''```json'') (pre @ obj @ post)))
                  = a @ obj @ b" "open_brace \<notin> set a" "close_brace \<notin> set b"
    using cleaned_around [OF assms] by blast
  show ?thesis
    using span_of_delimited [OF assms(1-3) c(2,3)]
    by (simp add: extractJSON_try_def c(1) Let_def)
qed

lemma ErrandOptimizer_parse_around:
  assumes "obj \<noteq> []" "hd obj = open_brace" "last obj = close_brace"
    and "open_brace \<notin> set pre" "close_brace \<notin> set post"
  shows "ErrandOptimizer_parse P (Some (pre @ obj @ post)) = JSON_parse P obj"
  using span_of_delimited [OF assms] assms(1)
  by (simp add: ErrandOptimizer_parse_def Let_def)

lemma set_trim: "set (trim s) \<subseteq> set s"
proof -
  have "set (dropWhile is_white_space (rev (dropWhile is_white_space s)))
          \<subseteq> set (rev (dropWhile is_white_space s))"
    by (auto dest: set_dropWhileD)
  also have "\<dots> \<subseteq> set s" by (auto dest: set_dropWhileD)
  finally show ?thesis by (simp add: trim_def)
qed

lemma set_cleanText:
  "set (trim (replace_all (js ''```'') (replace_all (js ''```json'') t))) \<subseteq> set t"
  using set_trim set_replace_all by (meson subset_trans)

lemma extractJSON_try_no_brace:
  assumes "open_brace \<notin> set t \<or> close_brace \<notin> set t"
  shows "extractJSON_try P (Some t) = Inr JNull"
proof -
  let ?c = "trim (replace_all (js ''```'') (replace_all (js ''```json'') t))"
  have "open_brace \<notin> set ?c \<or> close_brace \<notin> set ?c"
    using assms set_cleanText [of t] by blast
  then have "indexOf ?c open_brace = -1 \<or> lastIndexOf ?c close_brace + 1 = 0"
    by (auto simp: indexOf_absent lastIndexOf_absent)
  then show ?thesis by (auto simp: extractJSON_try_def Let_def)
qed

lemma extractJSON_try_value:
  "extractJSON_try P text = Inr v \<Longrightarrow> v = JNull \<or> (\<exists>t. JSON_parse P t = Inr v)"
  by (auto simp: extractJSON_try_def Let_def split: option.splits if_splits)

section \<open>Facts about the request cycle\<close>

lemma ErrandOS_generatePlan_failure:
  "ErrandOS_generatePlan_try P served = Inl e \<Longrightarrow>
     plan (ErrandOS_generatePlan P served isReroute s) = plan s
     \<and> groundingLinks (ErrandOS_generatePlan P served isReroute s) = groundingLinks s"
  by (simp add: ErrandOS_generatePlan_def Let_def)

lemma ErrandOptimizer_generatePlan_failure:
  "ErrandOptimizer_generatePlan_try P served = Inl e \<Longrightarrow>
     plan (ErrandOptimizer_generatePlan P served isReroute s) = plan s
     \<and> groundingLinks (ErrandOptimizer_generatePlan P served isReroute s) = groundingLinks s"
  by (simp add: ErrandOptimizer_generatePlan_def Let_def)

lemma ErrandOS_history:
  "history (ErrandOS_generatePlan P served isReroute s) =
     (if (trim (input s) \<noteq> [] \<or> isReroute) \<and> \<not> isReroute
         \<and> \<not> isl (ErrandOS_generatePlan_try P served)
      then take 5 (input s # history s) else history s)"
  by (cases "ErrandOS_generatePlan_try P served")
     (auto simp: ErrandOS_generatePlan_def Let_def split: prod.splits)

lemma ErrandOptimizer_history:
  "history (ErrandOptimizer_generatePlan P served isReroute s) =
     (if (trim (input s) \<noteq> [] \<or> isReroute) \<and> \<not> isReroute
         \<and> \<not> isl (ErrandOptimizer_generatePlan_try P served)
      then take 5 (input s # history s) else history s)"
  by (cases "ErrandOptimizer_generatePlan_try P served")
     (auto simp: ErrandOptimizer_generatePlan_def Let_def split: prod.splits)

lemma ErrandOS_isLoading:
  "isLoading (ErrandOS_generatePlan P served isReroute s) =
     (isLoading s \<and> trim (input s) = [] \<and> \<not> isReroute)"
  by (cases "ErrandOS_generatePlan_try P served")
     (auto simp: ErrandOS_generatePlan_def Let_def split: prod.splits)

lemma ErrandOptimizer_isLoading:
  "isLoading (ErrandOptimizer_generatePlan P served isReroute s) =
     (isLoading s \<and> trim (input s) = [] \<and> \<not> isReroute)"
  by (cases "ErrandOptimizer_generatePlan_try P served")
     (auto simp: ErrandOptimizer_generatePlan_def Let_def split: prod.splits)

lemma take_append_take: "take n (a @ take n b) = take n (a @ b)"
  by (simp add: min_def)

lemma foldl_submissions_Cons:
  "foldl h s (submissions ((t, served) # reqs))
     = foldl h (h (h s (Type t)) (Generate served)) (submissions reqs)"
  by (simp add: submissions_def)

lemma history_after_submissions:
  assumes typing: "\<And>s t. history (h s (Type t)) = history s \<and> input (h s (Type t)) = t"
    and gen: "\<And>s served. ok served \<Longrightarrow> trim (input s) \<noteq> [] \<Longrightarrow>
                history (h s (Generate served)) = take 5 (input s # history s)"
  shows "\<forall>(t, served)\<in>set reqs. trim t \<noteq> [] \<and> ok served \<Longrightarrow> length (history s) \<le> 5 \<Longrightarrow>
           history (foldl h s (submissions reqs)) = take 5 (rev (map fst reqs) @ history s)"
proof (induction reqs arbitrary: s)
  case Nil
  then show ?case by (simp add: submissions_def)
next
  case (Cons r reqs)
  obtain t served where r: "r = (t, served)" by (cases r)
  let ?s1 = "h (h s (Type t)) (Generate served)"
  from Cons.prems r have ok: "trim t \<noteq> []" "ok served" by auto
  have h1: "history ?s1 = take 5 (t # history s)"
    using gen [of served "h s (Type t)"] ok typing [of s t] by simp
  have "history (foldl h s (submissions (r # reqs)))
          = history (foldl h ?s1 (submissions reqs))"
    by (simp add: r foldl_submissions_Cons)
  also have "\<dots> = take 5 (rev (map fst reqs) @ history ?s1)"
    using Cons.IH [of ?s1] Cons.prems(1) h1 by simp
  also have "\<dots> = take 5 (rev (map fst reqs) @ (t # history s))"
    unfolding h1 by (rule take_append_take)
  finally show ?case by (simp add: r)
qed

lemma history_bounded:
  assumes step: "\<And>s e. length (history s) \<le> 5 \<Longrightarrow> length (history (h s e)) \<le> 5"
  shows "length (history s) \<le> 5 \<Longrightarrow> length (history (foldl h s evs)) \<le> 5"
  by (induction evs arbitrary: s) (simp_all add: step)

lemma ErrandOS_handle_bounded:
  "length (history s) \<le> 5 \<Longrightarrow> length (history (ErrandOS_handle P s e)) \<le> 5"
  by (cases e) (simp_all add: ErrandOS_history)

lemma ErrandOptimizer_handle_bounded:
  "length (history s) \<le> 5 \<Longrightarrow> length (history (ErrandOptimizer_handle P s e)) \<le> 5"
  by (cases e) (simp_all add: ErrandOptimizer_history)

lemma six_requests_evict:
  assumes "length (xs :: 'a list) = 6" "distinct xs"
  shows "take 5 (rev xs) = rev (tl xs)" and "hd xs \<notin> set (rev (tl xs))"
proof -
  obtain x ys where xs: "xs = x # ys" using assms(1) by (cases xs) auto
  then have "length (rev ys) = 5" using assms(1) by simp
  then show "take 5 (rev xs) = rev (tl xs)" using xs by simp
  show "hd xs \<notin> set (rev (tl xs))" using xs assms(2) by simp
qed

section \<open>Facts about citation extraction and the link\<close>









lemma ErrandOptimizer_push_source_acc:
  "ErrandOptimizer_push_source P chunk acc =
     (case ErrandOptimizer_push_source P chunk [] of
        Inl e \<Rightarrow> Inl e | Inr ls \<Rightarrow> Inr (acc @ ls))"
  by (simp add: ErrandOptimizer_push_source_def split: sum.splits)











section \<open>Why a request fails\<close>

text \<open>
  The \<^verbatim>\<open>try\<close> block of \<^verbatim>\<open>generatePlan\<close> throws when the service call failed, when the
  parser found no plan data, when \<^verbatim>\<open>JSON.parse\<close> rejected the text, or when \<^verbatim>\<open>String\<close>
  threw while a citation was built; and for no other reason.
\<close>

lemma ErrandOS_generatePlan_try_causes:
  "ErrandOS_generatePlan_try P (Inl e) = Inl e"
  "open_brace \<notin> set t \<or> close_brace \<notin> set t \<Longrightarrow>
     isl (ErrandOS_generatePlan_try P (Inr \<lparr>response_text = Some t, groundingChunks = g\<rparr>))"
  "extractJSON_try P (Some t) = Inl e \<Longrightarrow>
     isl (ErrandOS_generatePlan_try P (Inr \<lparr>response_text = Some t, groundingChunks = g\<rparr>))"
  "ErrandOS_sources P g = Inl e \<Longrightarrow>
     isl (ErrandOS_generatePlan_try P (Inr \<lparr>response_text = rt, groundingChunks = g\<rparr>))"
  by (simp_all add: ErrandOS_generatePlan_try_def extractJSON_def try_catch_def
        extractJSON_try_no_brace split: sum.splits)

lemma substring_nowhere: "substring s (-1) 0 = []"
  by (simp add: substring_def)

lemma ErrandOptimizer_parse_no_brace:
  assumes "open_brace \<notin> set t" "close_brace \<notin> set t"
  shows "ErrandOptimizer_parse P (Some t)
           = Inl (Error (js ''Critical: AI response contained no valid plan data.''))"
proof -
  have "indexOf t open_brace = -1" "lastIndexOf t close_brace + 1 = 0"
    using assms by (simp_all add: indexOf_absent lastIndexOf_absent)
  then show ?thesis
    by (simp add: ErrandOptimizer_parse_def substring_nowhere)
qed

lemma ErrandOptimizer_generatePlan_try_causes:
  "ErrandOptimizer_generatePlan_try P (Inl e) = Inl e"
  "open_brace \<notin> set t \<and> close_brace \<notin> set t \<Longrightarrow>
     isl (ErrandOptimizer_generatePlan_try P
            (Inr \<lparr>response_text = Some t, groundingChunks = g\<rparr>))"
  "ErrandOptimizer_parse P (Some t) = Inl e \<Longrightarrow>
     isl (ErrandOptimizer_generatePlan_try P
            (Inr \<lparr>response_text = Some t, groundingChunks = g\<rparr>))"
  "ErrandOptimizer_sources P g = Inl e \<Longrightarrow>
     isl (ErrandOptimizer_generatePlan_try P
            (Inr \<lparr>response_text = rt, groundingChunks = g\<rparr>))"
  by (simp_all add: ErrandOptimizer_generatePlan_try_def ErrandOptimizer_parse_no_brace
        split: sum.splits)

lemma ErrandOS_generatePlan_try_throws_only:
  assumes "ErrandOS_generatePlan_try P served = Inl e"
  shows "served = Inl e
         \<or> (\<exists>response v. served = Inr response
               \<and> extractJSON P (response_text response) = Inr v \<and> \<not> truthy (Some v))
         \<or> (\<exists>response. served = Inr response
               \<and> ErrandOS_sources P (groundingChunks response) = Inl e)"
proof (cases served)
  case (Inl x)
  with assms show ?thesis by (simp add: ErrandOS_generatePlan_try_def)
next
  case (Inr response)
  obtain v where v: "extractJSON P (response_text response) = Inr v"
    by (cases "extractJSON_try P (response_text response)")
       (simp_all add: extractJSON_def try_catch_def)
  show ?thesis using assms Inr v
    by (auto simp: ErrandOS_generatePlan_try_def split: if_splits sum.splits)
qed

lemma ErrandOptimizer_generatePlan_try_throws_only:
  assumes "ErrandOptimizer_generatePlan_try P served = Inl e"
  shows "served = Inl e
         \<or> (\<exists>response. served = Inr response
               \<and> ErrandOptimizer_parse P (response_text response) = Inl e)
         \<or> (\<exists>response. served = Inr response
               \<and> ErrandOptimizer_sources P (groundingChunks response) = Inl e)"
proof (cases served)
  case (Inl x)
  with assms show ?thesis by (simp add: ErrandOptimizer_generatePlan_try_def)
next
  case (Inr response)
  show ?thesis using assms Inr
    by (auto simp: ErrandOptimizer_generatePlan_try_def split: sum.splits)
qed

text \<open>Unfolding sets for evaluating the definitions at a concrete input.\<close>

lemmas js_eval = js_def unit_of_def open_brace_def close_brace_def is_white_space_def
  replace_all.simps trim_def substring_def Let_def

lemmas sample_eval = sample_platform_def sample_JSON_parse_def sample_encodeURIComponent_def
  sample_Number_toString_def


section \<open>The response parser decodes the delimited object\<close>

text \<open>
  C1, as amended. Let the response text be \<open>pre @ obj @ post\<close>, where \<open>obj\<close> is a
  well-formed JSON object (it begins with an opening brace, ends with a closing brace, and
  \<^verbatim>\<open>JSON.parse\<close> decodes it to \<open>v\<close>), the text before it holds no opening brace and the
  text after it no closing brace. Then the parser of \<^verbatim>\<open>ErrandOptimizer\<close> decodes exactly
  \<open>obj\<close>, and so does \<^verbatim>\<open>extractJSON\<close> of \<^verbatim>\<open>ErrandOS\<close> provided the fence marker of three
  backticks does not occur inside \<open>obj\<close>. Code fences and prose around the object, with
  or without surrounding white space, are otherwise arbitrary.
\<close>

theorem parser_decodes_delimited_object:
  assumes "obj \<noteq> []" "hd obj = open_brace" "last obj = close_brace"
    and "open_brace \<notin> set pre" "close_brace \<notin> set post"
    and "JSON_parse P obj = Inr v"
  shows "ErrandOptimizer_parse P (Some (pre @ obj @ post)) = Inr v
         \<and> (\<not> sublist (js ''```'') obj \<longrightarrow> extractJSON P (Some (pre @ obj @ post)) = Inr v)"
  using ErrandOptimizer_parse_around [OF assms(1-5)] extractJSON_try_around [OF assms(1-5)]
    assms(6)
  by (simp add: extractJSON_def try_catch_def)

text \<open>
  The response of the example scenario: a sentence, a fenced block, the object inside.
\<close>

theorem parser_decodes_delimited_object_witness:
  \<open>js ''{"summary":"ok"}'' \<noteq> []
   \<and> hd (js ''{"summary":"ok"}'') = open_brace
   \<and> last (js ''{"summary":"ok"}'') = close_brace
   \<and> open_brace \<notin> set (js ''Here you go:'' @ [0x0A] @ js ''```json'' @ [0x0A])
   \<and> close_brace \<notin> set ([0x0A] @ js ''```'')
   \<and> \<not> sublist (js ''```'') (js ''{"summary":"ok"}'')
   \<and> JSON_parse sample_platform (js ''{"summary":"ok"}'')
       = Inr (JObj [(js ''summary'', JStr (js ''ok''))])
   \<and> ErrandOptimizer_parse sample_platform
         (Some ((js ''Here you go:'' @ [0x0A] @ js ''```json'' @ [0x0A])
                @ js ''{"summary":"ok"}'' @ ([0x0A] @ js ''```'')))
       = Inr (JObj [(js ''summary'', JStr (js ''ok''))])
   \<and> extractJSON sample_platform
         (Some ((js ''Here you go:'' @ [0x0A] @ js ''```json'' @ [0x0A])
                @ js ''{"summary":"ok"}'' @ ([0x0A] @ js ''```'')))
       = Inr (JObj [(js ''summary'', JStr (js ''ok''))])\<close>
proof -
  let ?obj = \<open>js ''{"summary":"ok"}''\<close>
  let ?pre = "js ''Here you go:'' @ [0x0A] @ js ''```json'' @ [0x0A]"
  let ?post = "[0x0A] @ js ''```''"
  have h1: "?obj \<noteq> []" by (simp add: js_def)
  have h2: "hd ?obj = open_brace" by (simp add: js_def unit_of_def open_brace_def)
  have h3: "last ?obj = close_brace" by (simp add: js_def unit_of_def close_brace_def)
  have h4: "open_brace \<notin> set ?pre" by (simp add: js_def unit_of_def open_brace_def)
  have h5: "close_brace \<notin> set ?post" by (simp add: js_def unit_of_def close_brace_def)
  have h6: "\<not> sublist (js ''```'') ?obj" by (simp add: js_def unit_of_def sublist_code)
  have h7: "JSON_parse sample_platform ?obj = Inr (JObj [(js ''summary'', JStr (js ''ok''))])"
    by (simp add: sample_eval js_def unit_of_def)
  show ?thesis
    using parser_decodes_delimited_object [OF h1 h2 h3 h4 h5 h7] h1 h2 h3 h4 h5 h6 h7
    by blast
qed

text \<open>
  C1 as first stated, for any text that contains a well-formed object, fails twice. In
  \<^verbatim>\<open>Plan {draft}: {}\<close> the prose has braces of its own: the span from the first opening to
  the last closing brace is not the object \<^verbatim>\<open>{}\<close>, and both parsers reject it. In
  \<^verbatim>\<open>{"a":"```"}\<close> the fence marker is inside a string of the object: \<^verbatim>\<open>extractJSON\<close>
  deletes it and decodes a different object.
\<close>

theorem parser_misses_object_counterexample:
  \<open>JSON_parse sample_platform (js ''{}'') = Inr (JObj [])
   \<and> extractJSON sample_platform (Some (js ''Plan {draft}: {}'')) = Inr JNull
   \<and> ErrandOptimizer_parse sample_platform (Some (js ''Plan {draft}: {}''))
       = Inl (Error (js ''Unexpected token in JSON''))
   \<and> JSON_parse sample_platform (js ''{"a":"```"}'') = Inr (JObj [(js ''a'', JStr (js ''```''))])
   \<and> extractJSON sample_platform (Some (js ''{"a":"```"}'')) = Inr (JObj [(js ''a'', JStr [])])\<close>
  by (simp add: extractJSON_def extractJSON_try_def ErrandOptimizer_parse_def try_catch_def
        sample_eval js_eval)

section \<open>A failed request leaves the plan and the citations alone\<close>

text \<open>
  C2. A request fails when its \<^verbatim>\<open>try\<close> block throws: the service call failed, the parser
  found no plan data, \<^verbatim>\<open>JSON.parse\<close> rejected the text, or building a citation threw.
  Whatever the cause, the plan and the grounding links held before a generation or a
  reroute are the ones held after it, in both components.
\<close>

theorem failed_request_keeps_plan:
  "(ErrandOS_generatePlan_try P served = Inl e \<longrightarrow>
      plan (ErrandOS_generatePlan P served isReroute s) = plan s
      \<and> groundingLinks (ErrandOS_generatePlan P served isReroute s) = groundingLinks s)
   \<and> (ErrandOptimizer_generatePlan_try P served = Inl e' \<longrightarrow>
      plan (ErrandOptimizer_generatePlan P served isReroute s) = plan s
      \<and> groundingLinks (ErrandOptimizer_generatePlan P served isReroute s) = groundingLinks s)"
  using ErrandOS_generatePlan_failure ErrandOptimizer_generatePlan_failure by blast

text \<open>
  A reroute while a plan and one citation are held: the service fails (\<^verbatim>\<open>ErrandOS\<close>),
  the response holds no JSON (\<^verbatim>\<open>ErrandOptimizer\<close>).
\<close>

theorem failed_request_keeps_plan_witness:
  "ErrandOS_generatePlan_try sample_platform (Inl (Error (js ''Failed to fetch'')))
     = Inl (Error (js ''Failed to fetch''))
   \<and> plan (ErrandOS_generatePlan sample_platform (Inl (Error (js ''Failed to fetch''))) True
        (ErrandOS_initial\<lparr>plan := JObj [(js ''stops'', JArr [])],
                          groundingLinks := [\<lparr>title = js ''Pier 39'', uri = js ''u''\<rparr>]\<rparr>))
      = JObj [(js ''stops'', JArr [])]
   \<and> groundingLinks
        (ErrandOS_generatePlan sample_platform (Inl (Error (js ''Failed to fetch''))) True
          (ErrandOS_initial\<lparr>plan := JObj [(js ''stops'', JArr [])],
                            groundingLinks := [\<lparr>title = js ''Pier 39'', uri = js ''u''\<rparr>]\<rparr>))
      = [\<lparr>title = js ''Pier 39'', uri = js ''u''\<rparr>]
   \<and> ErrandOptimizer_generatePlan_try sample_platform
        (Inr \<lparr>response_text = Some (js ''Sorry, no plan.''), groundingChunks = None\<rparr>)
     = Inl (Error (js ''Critical: AI response contained no valid plan data.''))
   \<and> plan (ErrandOptimizer_generatePlan sample_platform
          (Inr \<lparr>response_text = Some (js ''Sorry, no plan.''), groundingChunks = None\<rparr>) True
          (ErrandOS_initial\<lparr>plan := JObj [(js ''stops'', JArr [])],
                            groundingLinks := [\<lparr>title = js ''Pier 39'', uri = js ''u''\<rparr>]\<rparr>))
      = JObj [(js ''stops'', JArr [])]
   \<and> groundingLinks
        (ErrandOptimizer_generatePlan sample_platform
          (Inr \<lparr>response_text = Some (js ''Sorry, no plan.''), groundingChunks = None\<rparr>) True
          (ErrandOS_initial\<lparr>plan := JObj [(js ''stops'', JArr [])],
                            groundingLinks := [\<lparr>title = js ''Pier 39'', uri = js ''u''\<rparr>]\<rparr>))
      = [\<lparr>title = js ''Pier 39'', uri = js ''u''\<rparr>]"
proof -
  let ?down = "Inl (Error (js ''Failed to fetch'')) :: thrown + response"
  let ?noplan = "Inr \<lparr>response_text = Some (js ''Sorry, no plan.''), groundingChunks = None\<rparr>
                  :: thrown + response"
  let ?s = "ErrandOS_initial\<lparr>plan := JObj [(js ''stops'', JArr [])],
                          groundingLinks := [\<lparr>title = js ''Pier 39'', uri = js ''u''\<rparr>]\<rparr>"
  have h1: "ErrandOS_generatePlan_try sample_platform ?down = Inl (Error (js ''Failed to fetch''))"
    by (simp add: ErrandOS_generatePlan_try_def)
  have "open_brace \<notin> set (js ''Sorry, no plan.'')"
    "close_brace \<notin> set (js ''Sorry, no plan.'')"
    by (simp_all add: js_def unit_of_def open_brace_def close_brace_def)
  then have h2: "ErrandOptimizer_generatePlan_try sample_platform ?noplan
                   = Inl (Error (js ''Critical: AI response contained no valid plan data.''))"
    by (simp add: ErrandOptimizer_generatePlan_try_def ErrandOptimizer_parse_no_brace)
  show ?thesis
    using failed_request_keeps_plan [of sample_platform ?down "Error (js ''Failed to fetch'')"
        True ?s "Error (js ''Failed to fetch'')"]
      failed_request_keeps_plan [of sample_platform ?noplan
        "Error (js ''Critical: AI response contained no valid plan data.'')"
        True ?s "Error (js ''Critical: AI response contained no valid plan data.'')"] h1 h2
    by simp
qed

section \<open>The request history\<close>

text \<open>
  C3. From the initial page, whatever is typed, generated or rerouted, the history never
  holds more than five entries. A successful generation that is not a reroute puts the
  request text in front and keeps the first five. After six such generations with distinct
  texts the history is the last five texts, the most recent first, and the first text is
  gone. This holds in both components.
\<close>

theorem history_capped_most_recent_first:
  "length (history (foldl (ErrandOS_handle P) ErrandOS_initial evs)) \<le> 5
   \<and> length (history (foldl (ErrandOptimizer_handle P) ErrandOptimizer_initial evs)) \<le> 5
   \<and> (trim (input s) \<noteq> [] \<and> ErrandOS_generatePlan_try P served = Inr r \<longrightarrow>
        history (ErrandOS_generatePlan P served False s) = take 5 (input s # history s))
   \<and> (trim (input s) \<noteq> [] \<and> ErrandOptimizer_generatePlan_try P served = Inr r \<longrightarrow>
        history (ErrandOptimizer_generatePlan P served False s) = take 5 (input s # history s))
   \<and> (length reqs = 6 \<and> distinct (map fst reqs)
        \<and> (\<forall>(t, served)\<in>set reqs.
              trim t \<noteq> [] \<and> \<not> isl (ErrandOS_generatePlan_try P served)) \<longrightarrow>
        history (foldl (ErrandOS_handle P) ErrandOS_initial (submissions reqs))
          = rev (map fst (tl reqs))
        \<and> fst (hd reqs)
            \<notin> set (history (foldl (ErrandOS_handle P) ErrandOS_initial (submissions reqs))))
   \<and> (length reqs = 6 \<and> distinct (map fst reqs)
        \<and> (\<forall>(t, served)\<in>set reqs.
              trim t \<noteq> [] \<and> \<not> isl (ErrandOptimizer_generatePlan_try P served)) \<longrightarrow>
        history (foldl (ErrandOptimizer_handle P) ErrandOptimizer_initial (submissions reqs))
          = rev (map fst (tl reqs))
        \<and> fst (hd reqs)
            \<notin> set (history (foldl (ErrandOptimizer_handle P) ErrandOptimizer_initial
                               (submissions reqs))))"
proof (intro conjI impI)
  show "length (history (foldl (ErrandOS_handle P) ErrandOS_initial evs)) \<le> 5"
    by (rule history_bounded) (simp_all add: ErrandOS_handle_bounded ErrandOS_initial_def)
  show "length (history (foldl (ErrandOptimizer_handle P) ErrandOptimizer_initial evs)) \<le> 5"
    by (rule history_bounded)
       (simp_all add: ErrandOptimizer_handle_bounded ErrandOptimizer_initial_def)
  show "history (ErrandOS_generatePlan P served False s) = take 5 (input s # history s)"
    if "trim (input s) \<noteq> [] \<and> ErrandOS_generatePlan_try P served = Inr r"
    using that by (simp add: ErrandOS_history)
  show "history (ErrandOptimizer_generatePlan P served False s) = take 5 (input s # history s)"
    if "trim (input s) \<noteq> [] \<and> ErrandOptimizer_generatePlan_try P served = Inr r"
    using that by (simp add: ErrandOptimizer_history)
next
  assume a: "length reqs = 6 \<and> distinct (map fst reqs)
        \<and> (\<forall>(t, served)\<in>set reqs.
              trim t \<noteq> [] \<and> \<not> isl (ErrandOS_generatePlan_try P served))"
  let ?h = "history (foldl (ErrandOS_handle P) ErrandOS_initial (submissions reqs))"
  have "?h = take 5 (rev (map fst reqs) @ history ErrandOS_initial)"
    using a
    by (intro history_after_submissions
          [where ok = "\<lambda>served. \<not> isl (ErrandOS_generatePlan_try P served)"])
       (simp_all add: ErrandOS_history ErrandOS_initial_def)
  then have h: "?h = rev (map fst (tl reqs))"
    using six_requests_evict(1) [of "map fst reqs"] a
    by (simp add: ErrandOS_initial_def map_tl)
  show "?h = rev (map fst (tl reqs))" by (rule h)
  show "fst (hd reqs) \<notin> set ?h"
    unfolding h using six_requests_evict(2) [of "map fst reqs"] a
    by (cases reqs) (auto simp: map_tl)
next
  assume a: "length reqs = 6 \<and> distinct (map fst reqs)
        \<and> (\<forall>(t, served)\<in>set reqs.
              trim t \<noteq> [] \<and> \<not> isl (ErrandOptimizer_generatePlan_try P served))"
  let ?h = "history (foldl (ErrandOptimizer_handle P) ErrandOptimizer_initial
                      (submissions reqs))"
  have "?h = take 5 (rev (map fst reqs) @ history ErrandOptimizer_initial)"
    using a
    by (intro history_after_submissions
          [where ok = "\<lambda>served. \<not> isl (ErrandOptimizer_generatePlan_try P served)"])
       (simp_all add: ErrandOptimizer_history ErrandOptimizer_initial_def)
  then have h: "?h = rev (map fst (tl reqs))"
    using six_requests_evict(1) [of "map fst reqs"] a
    by (simp add: ErrandOptimizer_initial_def map_tl)
  show "?h = rev (map fst (tl reqs))" by (rule h)
  show "fst (hd reqs) \<notin> set ?h"
    unfolding h using six_requests_evict(2) [of "map fst reqs"] a
    by (cases reqs) (auto simp: map_tl)
qed

text \<open>
  Six requests, each answered with the empty object.
\<close>

theorem history_capped_most_recent_first_witness:
  "history (foldl (ErrandOS_handle sample_platform) ErrandOS_initial
      (submissions
        [(js ''milk'', Inr \<lparr>response_text = Some (js ''{}''), groundingChunks = None\<rparr>),
         (js ''stamps'', Inr \<lparr>response_text = Some (js ''{}''), groundingChunks = None\<rparr>),
         (js ''bank'', Inr \<lparr>response_text = Some (js ''{}''), groundingChunks = None\<rparr>),
         (js ''gym'', Inr \<lparr>response_text = Some (js ''{}''), groundingChunks = None\<rparr>),
         (js ''keys'', Inr \<lparr>response_text = Some (js ''{}''), groundingChunks = None\<rparr>),
         (js ''fuel'', Inr \<lparr>response_text = Some (js ''{}''), groundingChunks = None\<rparr>)]))
     = [js ''fuel'', js ''keys'', js ''gym'', js ''bank'', js ''stamps'']
   \<and> history (foldl (ErrandOptimizer_handle sample_platform) ErrandOptimizer_initial
      (submissions
        [(js ''milk'', Inr \<lparr>response_text = Some (js ''{}''), groundingChunks = None\<rparr>),
         (js ''stamps'', Inr \<lparr>response_text = Some (js ''{}''), groundingChunks = None\<rparr>),
         (js ''bank'', Inr \<lparr>response_text = Some (js ''{}''), groundingChunks = None\<rparr>),
         (js ''gym'', Inr \<lparr>response_text = Some (js ''{}''), groundingChunks = None\<rparr>),
         (js ''keys'', Inr \<lparr>response_text = Some (js ''{}''), groundingChunks = None\<rparr>),
         (js ''fuel'', Inr \<lparr>response_text = Some (js ''{}''), groundingChunks = None\<rparr>)]))
     = [js ''fuel'', js ''keys'', js ''gym'', js ''bank'', js ''stamps'']
   \<and> history (ErrandOS_generatePlan sample_platform
                 (Inr \<lparr>response_text = Some (js ''{}''), groundingChunks = None\<rparr>) False
                 (ErrandOS_initial\<lparr>input := js ''milk'', history := [js ''stamps'']\<rparr>))
     = [js ''milk'', js ''stamps'']"
proof -
  let ?ok = "Inr \<lparr>response_text = Some (js ''{}''), groundingChunks = None\<rparr> :: thrown + response"
  let ?reqs = "[(js ''milk'', ?ok), (js ''stamps'', ?ok), (js ''bank'', ?ok), (js ''gym'', ?ok),
                (js ''keys'', ?ok), (js ''fuel'', ?ok)]"
  let ?s = "ErrandOS_initial\<lparr>input := js ''milk'', history := [js ''stamps'']\<rparr>"
  have t1: "ErrandOS_generatePlan_try sample_platform ?ok = Inr (JObj [], [])"
    by (simp add: ErrandOS_generatePlan_try_def extractJSON_def extractJSON_try_def try_catch_def
          ErrandOS_sources_def sample_eval js_eval)
  have t2: "ErrandOptimizer_generatePlan_try sample_platform ?ok = Inr (JObj [], [])"
    by (simp add: ErrandOptimizer_generatePlan_try_def ErrandOptimizer_parse_def
          ErrandOptimizer_sources_def sample_eval js_eval)
  have n: "trim (js ''milk'') \<noteq> []" "trim (js ''stamps'') \<noteq> []" "trim (js ''bank'') \<noteq> []"
    "trim (js ''gym'') \<noteq> []" "trim (js ''keys'') \<noteq> []" "trim (js ''fuel'') \<noteq> []"
    by (simp_all add: js_eval)
  have d: "distinct (map fst ?reqs)" by (simp add: js_def unit_of_def)
  have a1: "length ?reqs = 6 \<and> distinct (map fst ?reqs)
        \<and> (\<forall>(t, served)\<in>set ?reqs.
              trim t \<noteq> [] \<and> \<not> isl (ErrandOS_generatePlan_try sample_platform served))"
    using d n t1 by simp
  have a2: "length ?reqs = 6 \<and> distinct (map fst ?reqs)
        \<and> (\<forall>(t, served)\<in>set ?reqs.
              trim t \<noteq> [] \<and> \<not> isl (ErrandOptimizer_generatePlan_try sample_platform served))"
    using d n t2 by simp
  have a3: "trim (input ?s) \<noteq> [] \<and> ErrandOS_generatePlan_try sample_platform ?ok = Inr (JObj [], [])"
    using n t1 by simp
  have a4: "trim (input ?s) \<noteq> [] \<and> ErrandOptimizer_generatePlan_try sample_platform ?ok = Inr (JObj [], [])"
    using n t2 by simp
  show ?thesis
    using history_capped_most_recent_first [of sample_platform "[]" ?s ?ok "(JObj [], [])" ?reqs]
      a1 a2 a3 a4
    by simp
qed

section \<open>Citation extraction\<close>




section \<open>The voice toggle without speech recognition\<close>

text \<open>
  C5 says that on a platform without speech recognition the toggle never throws and
  leaves the state machine idle. It does not throw, but from the idle initial page one
  activation sets \<open>isListening\<close>: \<^verbatim>\<open>recognitionRef.current?.start()\<close> is skipped and
  \<^verbatim>\<open>setIsListening(true)\<close> runs all the same.
\<close>

theorem toggle_without_speech_recognition:
  "toggleListening None ErrandOS_initial = (None, ErrandOS_initial\<lparr>isListening := True\<rparr>)
   \<and> toggleListening None ErrandOptimizer_initial
       = (None, ErrandOptimizer_initial\<lparr>isListening := True\<rparr>)"
  by (simp add: toggleListening_def ErrandOS_initial_def ErrandOptimizer_initial_def)

section \<open>The location fallback\<close>

text \<open>
  C6, as amended. When geolocation is denied or fails, both components store the
  coordinate (37.7749, -122.4194) and the label \<^verbatim>\<open>San Francisco, CA\<close>.
  \<^verbatim>\<open>ErrandOptimizer\<close> also sets the advisory message; \<^verbatim>\<open>ErrandOS\<close> leaves the error
  cell as it was.
\<close>

theorem geolocation_fallback:
  "location (ErrandOS_getCurrentPosition P PositionError s) = Some (37.7749, -122.4194)
   \<and> locationName (ErrandOS_getCurrentPosition P PositionError s) = js ''San Francisco, CA''
   \<and> error (ErrandOS_getCurrentPosition P PositionError s) = error s
   \<and> location (ErrandOptimizer_getCurrentPosition P PositionError s)
       = Some (37.7749, -122.4194)
   \<and> locationName (ErrandOptimizer_getCurrentPosition P PositionError s)
       = js ''San Francisco, CA''
   \<and> error (ErrandOptimizer_getCurrentPosition P PositionError s)
       = Some (js ''Location access denied. Routing from default hub (San Francisco).'')"
  by (simp add: Let_def js_def)

text \<open>
  C6 as first stated fails in \<^verbatim>\<open>ErrandOS\<close>: after the failure callback on the initial
  page no advisory is held.
\<close>

theorem ErrandOS_fallback_without_advisory_counterexample:
  "error (ErrandOS_getCurrentPosition sample_platform PositionError ErrandOS_initial) = None"
  by (simp add: Let_def ErrandOS_initial_def)

section \<open>The busy indicator\<close>

text \<open>
  C7. Every generation or reroute that starts (the input is not blank, or it is a
  reroute) ends with the busy indicator cleared, whatever the service returned and whether
  or not the \<^verbatim>\<open>try\<close> block threw. A blank generation returns at once and changes nothing,
  so it leaves a clear indicator clear.
\<close>

theorem busy_indicator_cleared:
  "(trim (input s) \<noteq> [] \<or> isReroute \<or> \<not> isLoading s \<longrightarrow>
      \<not> isLoading (ErrandOS_generatePlan P served isReroute s))
   \<and> (trim (input s) \<noteq> [] \<or> isReroute \<or> \<not> isLoading s \<longrightarrow>
      \<not> isLoading (ErrandOptimizer_generatePlan P served isReroute s))"
  by (auto simp: ErrandOS_isLoading ErrandOptimizer_isLoading)

text \<open>
  A request that fails in \<^verbatim>\<open>ErrandOS\<close> and one that succeeds in \<^verbatim>\<open>ErrandOptimizer\<close>.
\<close>

theorem busy_indicator_cleared_witness:
  "trim (input (ErrandOS_initial\<lparr>input := js ''milk, stamps''\<rparr>)) \<noteq> []
   \<and> \<not> isLoading (ErrandOS_generatePlan sample_platform (Inl (Error (js ''Failed to fetch'')))
          False (ErrandOS_initial\<lparr>input := js ''milk, stamps''\<rparr>))
   \<and> \<not> isLoading (ErrandOptimizer_generatePlan sample_platform
          (Inr \<lparr>response_text = Some (js ''{}''), groundingChunks = None\<rparr>)
          False (ErrandOS_initial\<lparr>input := js ''milk, stamps''\<rparr>))"
proof -
  let ?s = "ErrandOS_initial\<lparr>input := js ''milk, stamps''\<rparr>"
  have h: "trim (input ?s) \<noteq> []" by (simp add: js_eval)
  then have h': "trim (input ?s) \<noteq> [] \<or> False \<or> \<not> isLoading ?s" by blast
  show ?thesis
    using busy_indicator_cleared [of ?s False sample_platform "Inl (Error (js ''Failed to fetch''))"]
      busy_indicator_cleared [of ?s False sample_platform
        "Inr \<lparr>response_text = Some (js ''{}''), groundingChunks = None\<rparr>"] h h'
    by blast
qed

section \<open>The outbound directions link\<close>




section \<open>A reroute and the history\<close>

text \<open>
  C9. A reroute, whether its \<^verbatim>\<open>try\<close> block throws or not, leaves the request history as
  it was, in both components.
\<close>

theorem reroute_keeps_history:
  "history (ErrandOS_generatePlan P served True s) = history s
   \<and> history (ErrandOptimizer_generatePlan P served True s) = history s"
  by (simp add: ErrandOS_history ErrandOptimizer_history)

section \<open>Totality of the JSON extraction helper\<close>

text \<open>
  C10. For every input, \<^verbatim>\<open>undefined\<close> included, \<^verbatim>\<open>extractJSON\<close> returns and does not
  throw; what it returns is \<^verbatim>\<open>null\<close> or a value that \<^verbatim>\<open>JSON.parse\<close> decoded. A text
  without an opening or without a closing brace gives \<^verbatim>\<open>null\<close>, and so does a text whose
  span between the braces of the cleaned text \<^verbatim>\<open>JSON.parse\<close> rejects.
\<close>

theorem extractJSON_total:
  "(\<exists>v. extractJSON P text = Inr v \<and> (v = JNull \<or> (\<exists>d. JSON_parse P d = Inr v)))
   \<and> (open_brace \<notin> set t \<or> close_brace \<notin> set t \<longrightarrow> extractJSON P (Some t) = Inr JNull)
   \<and> (c = trim (replace_all (js ''```'') (replace_all (js ''```json'') u))
        \<and> JSON_parse P (substring c (indexOf c open_brace) (lastIndexOf c close_brace + 1))
            = Inl e \<longrightarrow>
      extractJSON P (Some u) = Inr JNull)"
proof (intro conjI impI)
  show "\<exists>v. extractJSON P text = Inr v \<and> (v = JNull \<or> (\<exists>d. JSON_parse P d = Inr v))"
  proof (cases "extractJSON_try P text")
    case (Inl e)
    then show ?thesis by (simp add: extractJSON_def try_catch_def)
  next
    case (Inr v)
    then show ?thesis using extractJSON_try_value [OF Inr]
      by (simp add: extractJSON_def try_catch_def)
  qed
  show "extractJSON P (Some t) = Inr JNull" if "open_brace \<notin> set t \<or> close_brace \<notin> set t"
    using extractJSON_try_no_brace [OF that] by (simp add: extractJSON_def try_catch_def)
  show "extractJSON P (Some u) = Inr JNull"
    if "c = trim (replace_all (js ''```'') (replace_all (js ''```json'') u))
        \<and> JSON_parse P (substring c (indexOf c open_brace) (lastIndexOf c close_brace + 1))
            = Inl e"
    using that by (auto simp: extractJSON_def try_catch_def extractJSON_try_def Let_def)
qed

text \<open>
  A text without braces, and a fenced text whose braces hold no JSON.
\<close>

theorem extractJSON_total_witness:
  "open_brace \<notin> set (js ''Sorry, no plan.'')
   \<and> extractJSON sample_platform (Some (js ''Sorry, no plan.'')) = Inr JNull
   \<and> JSON_parse sample_platform (js ''{nope}'') = Inl (Error (js ''Unexpected token in JSON''))
   \<and> extractJSON sample_platform (Some (js ''```json{nope}```'')) = Inr JNull"
proof -
  let ?t = "js ''Sorry, no plan.''" and ?u = "js ''```json{nope}```''" and ?c = "js ''{nope}''"
  have h0: "open_brace \<notin> set ?t"
    by (simp add: js_def unit_of_def open_brace_def)
  then have h1: "open_brace \<notin> set ?t \<or> close_brace \<notin> set ?t"
    by blast
  have c: "?c = trim (replace_all (js ''```'') (replace_all (js ''```json'') ?u))"
    by (simp add: js_eval)
  have s: "substring ?c (indexOf ?c open_brace) (lastIndexOf ?c close_brace + 1) = ?c"
    by (simp add: js_eval)
  have p: "JSON_parse sample_platform ?c = Inl (Error (js ''Unexpected token in JSON''))"
    by (simp add: sample_eval js_def unit_of_def)
  have h2: "?c = trim (replace_all (js ''```'') (replace_all (js ''```json'') ?u))
        \<and> JSON_parse sample_platform
              (substring ?c (indexOf ?c open_brace) (lastIndexOf ?c close_brace + 1))
            = Inl (Error (js ''Unexpected token in JSON''))"
    using c s p by simp
  show ?thesis
    using extractJSON_total [of sample_platform "Some (js ''{}'')" ?t ?c ?u
        "Error (js ''Unexpected token in JSON'')"]
      h0 h1 h2 p
    by blast
qed

end
